theory Spec2Isabelle
  imports Main "HOL-Library.AList"
begin

section \<open>Data model (types.ts)\<close>

text \<open>
  The interfaces of \<^verbatim>\<open>types.ts\<close> as records. A field keeps its source name unless the
  name is taken: \<^verbatim>\<open>id\<close> is a constant of HOL, \<^verbatim>\<open>text\<close> is a keyword, and
  \<^verbatim>\<open>title\<close> and \<^verbatim>\<open>createdAt\<close> occur in two interfaces; those carry the prefix of
  their interface. A \<^verbatim>\<open>number\<close> field holds a millisecond clock reading and is a
  natural number; the optional \<^verbatim>\<open>password\<close> is an option. Strings are byte lists, a
  character outside ASCII being its UTF-8 bytes.
\<close>

datatype UserRole = ADMIN | PARTICIPANT

datatype MessageType = TEXT | SYSTEM

record Message =
  msg_id :: string
  senderName :: string
  role :: UserRole
  msg_text :: string
  timestamp :: nat
  msg_type :: MessageType

record Memo =
  memo_id :: string
  memo_title :: string
  content :: string
  memo_createdAt :: nat

record ChatRoom =
  room_id :: string
  title :: string
  password :: "string option"
  messages :: "Message list"
  memos :: "Memo list"
  createdAt :: nat
  createdBy :: string

section \<open>The persistent store (storageService.ts)\<close>

text \<open>
  The service reads and writes one item of \<^verbatim>\<open>localStorage\<close>, the one under
  \<^verbatim>\<open>ROOMS_KEY\<close>. An item is a text; what the service does with it depends only on what
  \<^verbatim>\<open>JSON.parse\<close> makes of it, so an item is either \<open>Malformed s\<close>, a text \<open>s\<close> that
  \<^verbatim>\<open>JSON.parse\<close> rejects with a \<^verbatim>\<open>SyntaxError\<close> (the empty text is one), or
  \<open>Serialized rooms\<close>, the text \<^verbatim>\<open>JSON.stringify(rooms)\<close> of a room array, which
  \<^verbatim>\<open>JSON.parse\<close> reads back as that array: every field of a room is a string, an
  integer, an array or an object of these. A text that parses to something that is no
  room array is outside the declared type \<^verbatim>\<open>ChatRoom[]\<close> of \<^verbatim>\<open>getRooms\<close> and outside
  this model, as is a full storage quota.

  The state of the browser that the service touches is the item (\<open>None\<close> when the key is
  absent, where \<^verbatim>\<open>getItem\<close> returns \<^verbatim>\<open>null\<close>) and the events dispatched on
  \<^verbatim>\<open>window\<close>, oldest first.
\<close>

datatype 'r blob = Malformed string | Serialized "'r list"

datatype error = SyntaxError

record 'r world =
  localStorage :: "'r blob option"
  events :: "string list"

definition JSON_parse :: "'r blob \<Rightarrow> error + 'r list" where
  "JSON_parse stored = (case stored of Malformed s \<Rightarrow> Inl SyntaxError | Serialized rooms \<Rightarrow> Inr rooms)"

definition JSON_stringify :: "'r list \<Rightarrow> 'r blob" where
  "JSON_stringify rooms = Serialized rooms"

text \<open>A text is truthy unless it is empty; a serialized array is at least \<^verbatim>\<open>[]\<close>.\<close>

definition truthy :: "'r blob \<Rightarrow> bool" where
  "truthy stored = (case stored of Malformed s \<Rightarrow> s \<noteq> [] | Serialized rooms \<Rightarrow> True)"

definition getItem :: "'r world \<Rightarrow> 'r blob option" where
  "getItem w = localStorage w"

definition setItem :: "'r blob \<Rightarrow> 'r world \<Rightarrow> 'r world" where
  "setItem v w = w\<lparr>localStorage := Some v\<rparr>"

text \<open>
  \<^verbatim>\<open>getRooms\<close>: the body of the \<^verbatim>\<open>try\<close> block, which may raise, and the function with
  its \<^verbatim>\<open>catch\<close>, which turns every error into the empty array.
\<close>

definition getRooms_try :: "'r world \<Rightarrow> error + 'r list" where
  "getRooms_try w =
     (case getItem w of
        None \<Rightarrow> Inr []
      | Some stored \<Rightarrow> if truthy stored then JSON_parse stored else Inr [])"

definition getRooms :: "'r world \<Rightarrow> error + 'r list" where
  "getRooms w = (case getRooms_try w of Inl error \<Rightarrow> Inr [] | Inr rooms \<Rightarrow> Inr rooms)"

definition notifyChanges :: "'r world \<Rightarrow> 'r world" where
  "notifyChanges w = w\<lparr>events := events w @ [''storage'', ''storage-local'']\<rparr>"

section \<open>The room repository (storageService.ts)\<close>

text \<open>
  \<^verbatim>\<open>Array.prototype.findIndex\<close>: the index of the first element that satisfies the
  test, \<open>-1\<close> when there is none. \<^verbatim>\<open>Array.prototype.find\<close> is \<^const>\<open>List.find\<close>, with
  \<open>None\<close> for \<^verbatim>\<open>undefined\<close>, and \<^verbatim>\<open>Array.prototype.filter\<close> is \<^const>\<open>filter\<close>.
\<close>

fun findIndex_from :: "('a \<Rightarrow> bool) \<Rightarrow> int \<Rightarrow> 'a list \<Rightarrow> int" where
  "findIndex_from P i [] = -1"
| "findIndex_from P i (x # xs) = (if P x then i else findIndex_from P (i + 1) xs)"

definition findIndex :: "('a \<Rightarrow> bool) \<Rightarrow> 'a list \<Rightarrow> int" where
  "findIndex P xs = findIndex_from P 0 xs"

text \<open>
  \<^verbatim>\<open>saveRoom\<close> reads the collection again, replaces the first room that has the id of
  \<open>room\<close> or appends \<open>room\<close> when no room has it, writes the collection and notifies.
  The operations work on any record that extends \<^typ>\<open>ChatRoom\<close>.
\<close>

definition saveRoom ::
  "'a ChatRoom_scheme \<Rightarrow> 'a ChatRoom_scheme world \<Rightarrow> error + 'a ChatRoom_scheme world" where
  "saveRoom room w =
     (case getRooms w of
        Inl e \<Rightarrow> Inl e
      | Inr rooms \<Rightarrow>
          (let existingIndex = findIndex (\<lambda>r. room_id r = room_id room) rooms;
               rooms' = (if existingIndex \<ge> 0 then rooms[nat existingIndex := room]
                         else rooms @ [room])
           in Inr (notifyChanges (setItem (JSON_stringify rooms') w))))"

text \<open>\<^verbatim>\<open>String(x)\<close> of a string \<open>x\<close> is \<open>x\<close>; ids are declared strings.\<close>

definition String_js :: "string \<Rightarrow> string" where
  "String_js s = s"

definition deleteRoom ::
  "string \<Rightarrow> 'a ChatRoom_scheme world \<Rightarrow> error + 'a ChatRoom_scheme world" where
  "deleteRoom roomId w =
     (case getRooms w of
        Inl e \<Rightarrow> Inl e
      | Inr rooms \<Rightarrow>
          (let updatedRooms = filter (\<lambda>r. String_js (room_id r) \<noteq> String_js roomId) rooms
           in Inr (notifyChanges (setItem (JSON_stringify updatedRooms) w))))"

text \<open>
  \<^verbatim>\<open>index.tsx\<close> and a second copy of the service hold the same functions, word for
  word but for two places: their \<^verbatim>\<open>deleteRoom\<close> compares the ids with \<^verbatim>\<open>!==\<close> and
  without \<^verbatim>\<open>String\<close>, and their \<^verbatim>\<open>createRoom\<close> takes nine characters of
  \<^verbatim>\<open>Math.random().toString(36)\<close> as the id, with no use of \<^verbatim>\<open>crypto\<close>.
\<close>

definition deleteRoom_strict ::
  "string \<Rightarrow> 'a ChatRoom_scheme world \<Rightarrow> error + 'a ChatRoom_scheme world" where
  "deleteRoom_strict roomId w =
     (case getRooms w of
        Inl e \<Rightarrow> Inl e
      | Inr rooms \<Rightarrow>
          (let updatedRooms = filter (\<lambda>r. room_id r \<noteq> roomId) rooms
           in Inr (notifyChanges (setItem (JSON_stringify updatedRooms) w))))"

text \<open>
  \<^verbatim>\<open>addMessage\<close>, \<^verbatim>\<open>addMemo\<close> and \<^verbatim>\<open>deleteMemo\<close> find the first room with the id in
  a freshly parsed collection, change that copy and hand it to \<^verbatim>\<open>saveRoom\<close>, which
  parses the item again: the array that \<^verbatim>\<open>find\<close> searched is dropped, so the change
  to an element of it is a change to the value passed on and to nothing else. When
  \<^verbatim>\<open>find\<close> returns \<^verbatim>\<open>undefined\<close> nothing is written and no event is dispatched.
\<close>

definition addMessage ::
  "string \<Rightarrow> Message \<Rightarrow> 'a ChatRoom_scheme world \<Rightarrow> error + 'a ChatRoom_scheme world" where
  "addMessage roomId message w =
     (case getRooms w of
        Inl e \<Rightarrow> Inl e
      | Inr rooms \<Rightarrow>
          (case find (\<lambda>r. room_id r = roomId) rooms of
             Some room \<Rightarrow> saveRoom (room\<lparr>messages := messages room @ [message]\<rparr>) w
           | None \<Rightarrow> Inr w))"

definition addMemo ::
  "string \<Rightarrow> Memo \<Rightarrow> 'a ChatRoom_scheme world \<Rightarrow> error + 'a ChatRoom_scheme world" where
  "addMemo roomId memo w =
     (case getRooms w of
        Inl e \<Rightarrow> Inl e
      | Inr rooms \<Rightarrow>
          (case find (\<lambda>r. room_id r = roomId) rooms of
             Some room \<Rightarrow> saveRoom (room\<lparr>memos := memos room @ [memo]\<rparr>) w
           | None \<Rightarrow> Inr w))"

definition deleteMemo ::
  "string \<Rightarrow> string \<Rightarrow> 'a ChatRoom_scheme world \<Rightarrow> error + 'a ChatRoom_scheme world" where
  "deleteMemo roomId memoId w =
     (case getRooms w of
        Inl e \<Rightarrow> Inl e
      | Inr rooms \<Rightarrow>
          (case find (\<lambda>r. room_id r = roomId) rooms of
             Some room \<Rightarrow>
               saveRoom (room\<lparr>memos := filter (\<lambda>m. memo_id m \<noteq> memoId) (memos room)\<rparr>) w
           | None \<Rightarrow> Inr w))"

subsection \<open>createRoom\<close>

text \<open>
  What \<^verbatim>\<open>createRoom\<close> reads from the platform, one field for each read in the order of
  the source: the three parts of \<^verbatim>\<open>new Date()\<close> (\<^verbatim>\<open>getMonth\<close> counts from 0);
  \<^verbatim>\<open>crypto.randomUUID()\<close>, \<open>None\<close> when \<^verbatim>\<open>crypto\<close> or its \<^verbatim>\<open>randomUUID\<close> is
  missing; for the fallback id \<^verbatim>\<open>Date.now()\<close> and the text
  \<^verbatim>\<open>Math.random().toString(36)\<close>; that text again for the id of the message; and
  \<^verbatim>\<open>Date.now()\<close> for the timestamp of the message and for \<^verbatim>\<open>createdAt\<close>.
\<close>

record env =
  now_getFullYear :: nat
  now_getMonth :: nat
  now_getDate :: nat
  crypto_randomUUID :: "string option"
  Date_now_id :: nat
  Math_random_id :: string
  Math_random_msg :: string
  Date_now_timestamp :: nat
  Date_now_createdAt :: nat

text \<open>A natural number in a template literal: its decimal digits.\<close>

fun decimal :: "nat \<Rightarrow> string" where
  "decimal n = (if n < 10 then [''0123456789'' ! n]
                else decimal (n div 10) @ [''0123456789'' ! (n mod 10)])"

declare decimal.simps [simp del]

text \<open>
  \<^verbatim>\<open>String.prototype.substring(start, end)\<close>: both indices are cut to the length, and
  swapped when the first is the greater.
\<close>

definition substring :: "nat \<Rightarrow> nat \<Rightarrow> string \<Rightarrow> string" where
  "substring start end' s =
     (let a = min start (length s); b = min end' (length s)
      in take (max a b - min a b) (drop (min a b) s))"

text \<open>The Hangul syllables of the banner (year, month, day), in UTF-8.\<close>

definition nyeon :: string where
  "nyeon = [CHR 0xEB, CHR 0x85, CHR 0x84]"

definition wol :: string where
  "wol = [CHR 0xEC, CHR 0x9B, CHR 0x94]"

definition il :: string where
  "il = [CHR 0xEC, CHR 0x9D, CHR 0xBC]"

definition dateText :: "env \<Rightarrow> string" where
  "dateText e =
     decimal (now_getFullYear e) @ nyeon @ '' '' @ decimal (now_getMonth e + 1) @ wol @ '' '' @
     decimal (now_getDate e) @ il"

definition uniqueId :: "env \<Rightarrow> string" where
  "uniqueId e =
     (case crypto_randomUUID e of
        Some uuid \<Rightarrow> uuid
      | None \<Rightarrow> ''room_'' @ decimal (Date_now_id e) @ ''_'' @ substring 2 9 (Math_random_id e))"

definition newRoom :: "env \<Rightarrow> string \<Rightarrow> string option \<Rightarrow> ChatRoom" where
  "newRoom e title' password' =
     \<lparr>room_id = uniqueId e,
      title = title',
      password = password',
      messages =
        [\<lparr>msg_id = Math_random_msg e,
          senderName = ''System'',
          role = ADMIN,
          msg_text = dateText e,
          timestamp = Date_now_timestamp e,
          msg_type = SYSTEM\<rparr>],
      memos = [],
      createdAt = Date_now_createdAt e,
      createdBy = ''AI Bot''\<rparr>"

definition createRoom ::
  "env \<Rightarrow> string \<Rightarrow> string option \<Rightarrow> ChatRoom world \<Rightarrow> error + (ChatRoom \<times> ChatRoom world)" where
  "createRoom e title' password' w =
     (case saveRoom (newRoom e title' password') w of
        Inl err \<Rightarrow> Inl err
      | Inr w' \<Rightarrow> Inr (newRoom e title' password', w'))"

text \<open>
  A sequence of \<^verbatim>\<open>createRoom\<close> calls, each with its own platform reads, title and
  password: the rooms returned, in call order, and the final state.
\<close>

fun createRooms ::
  "(env \<times> string \<times> string option) list \<Rightarrow> ChatRoom world \<Rightarrow>
     error + (ChatRoom list \<times> ChatRoom world)" where
  "createRooms [] w = Inr ([], w)"
| "createRooms ((e, t, p) # calls) w =
     (case createRoom e t p w of
        Inl err \<Rightarrow> Inl err
      | Inr (room, w') \<Rightarrow>
          (case createRooms calls w' of
             Inl err \<Rightarrow> Inl err
           | Inr (rooms, w'') \<Rightarrow> Inr (room # rooms, w'')))"

subsection \<open>setTypingStatus\<close>

text \<open>
  Modelled from the spec: \<^verbatim>\<open>setTypingStatus\<close> and the \<^verbatim>\<open>typing\<close> field of a room.
  \<^verbatim>\<open>ChatInterface.tsx\<close> imports \<^verbatim>\<open>setTypingStatus\<close> from the storage service, calls it
  with a room id, a user name and a flag, and reads \<^verbatim>\<open>room.typing\<close> as an object from
  user names to flags; no version of the service in the sources defines the function and
  \<^verbatim>\<open>ChatRoom\<close> in \<^verbatim>\<open>types.ts\<close> declares no such field. The spec: it "upserts a boolean
  under a sanitized key (strip characters unsafe for the storage key namespace) in the
  room's typing map", after the pattern of all operations, "load full collection, locate
  target by id, mutate, save full collection", and none of them "throws for not found";
  they "degrade to no-ops". The spec does not say which characters are unsafe: the test
  \<open>unsafe\<close> is a parameter. The map is an association list, in which an upsert keeps the
  place of a key that is present and appends a new one, as an object of the platform does.
\<close>

text \<open>
  Modelled from the spec: the room with its \<^verbatim>\<open>typing\<close> map, "typing: map<username, bool>",
  a field that \<^verbatim>\<open>types.ts\<close> does not declare.
\<close>

record TypingRoom = ChatRoom +
  typing :: "(string \<times> bool) list"

text \<open>
  Modelled from the spec: the sanitized key, "strip characters unsafe for the storage key
  namespace"; the function is in no source file.
\<close>

definition sanitize :: "(char \<Rightarrow> bool) \<Rightarrow> string \<Rightarrow> string" where
  "sanitize unsafe username = filter (\<lambda>c. \<not> unsafe c) username"

text \<open>
  Modelled from the spec: \<^verbatim>\<open>setTypingStatus\<close>, which is in no source file; it follows
  \<^const>\<open>addMemo\<close> with the upsert in place of the append.
\<close>

definition setTypingStatus ::
  "(char \<Rightarrow> bool) \<Rightarrow> string \<Rightarrow> string \<Rightarrow> bool \<Rightarrow> TypingRoom world \<Rightarrow> error + TypingRoom world" where
  "setTypingStatus unsafe roomId username isTyping w =
     (case getRooms w of
        Inl e \<Rightarrow> Inl e
      | Inr rooms \<Rightarrow>
          (case find (\<lambda>r. room_id r = roomId) rooms of
             Some room \<Rightarrow>
               saveRoom
                 (room\<lparr>typing := AList.update (sanitize unsafe username) isTyping (typing room)\<rparr>) w
           | None \<Rightarrow> Inr w))"

section \<open>Proof devices and sample data\<close>

text \<open>
  What \<^const>\<open>saveRoom\<close> does to the collection, as a recursion on the list: the first room
  with the id of \<open>room\<close> is replaced, and \<open>room\<close> is appended when there is none.
\<close>

fun put_room :: "'a ChatRoom_scheme \<Rightarrow> 'a ChatRoom_scheme list \<Rightarrow> 'a ChatRoom_scheme list" where
  "put_room room [] = [room]"
| "put_room room (r # rs) = (if room_id r = room_id room then room # rs else r # put_room room rs)"

text \<open>The collection that \<^const>\<open>getRooms\<close> returns has no two rooms with the same id.\<close>

definition unique_ids :: "'a ChatRoom_scheme world \<Rightarrow> bool" where
  "unique_ids w = (case getRooms w of Inl e \<Rightarrow> False | Inr rooms \<Rightarrow> distinct (map room_id rooms))"

text \<open>
  The scenario of the spec: the room "Standup", created without a password on
  5 January 2024 where \<^verbatim>\<open>crypto.randomUUID\<close> exists; the message "hi" of Ana; the
  memo "Plan A".
\<close>

definition env_standup :: env where
  "env_standup =
     \<lparr>now_getFullYear = 2024, now_getMonth = 0, now_getDate = 5,
      crypto_randomUUID = Some ''3b241101-e2bb-4255-8caf-4136c566a962'',
      Date_now_id = 1704412800000, Math_random_id = ''0.4fzyo82mvyr'',
      Math_random_msg = ''0.8k2jx1q9wd'', Date_now_timestamp = 1704412800000,
      Date_now_createdAt = 1704412800001\<rparr>"

definition room_standup :: ChatRoom where
  "room_standup = newRoom env_standup ''Standup'' None"

definition msg_hi :: Message where
  "msg_hi =
     \<lparr>msg_id = ''k3v9x0c1a'', senderName = ''Ana'', role = PARTICIPANT, msg_text = ''hi'',
      timestamp = 1704412860000, msg_type = TEXT\<rparr>"

definition memo_plan :: Memo where
  "memo_plan =
     \<lparr>memo_id = ''p7d2m4q8z'', memo_title = ''Plan A'', content = ''Details'',
      memo_createdAt = 1704412870000\<rparr>"

definition world_standup :: "ChatRoom world" where
  "world_standup = \<lparr>localStorage = Some (Serialized [room_standup]), events = []\<rparr>"

text \<open>The ids of the rooms that a sequence of \<^verbatim>\<open>createRoom\<close> calls returns, in call order.\<close>

definition returned_ids :: "(env \<times> string \<times> string option) list \<Rightarrow> ChatRoom world \<Rightarrow> string list" where
  "returned_ids calls w =
     (case createRooms calls w of Inl err \<Rightarrow> [] | Inr (rooms, w') \<Rightarrow> map room_id rooms)"

text \<open>
  Two calls where \<^verbatim>\<open>crypto.randomUUID\<close> is missing, in the same millisecond, with two
  values of \<^verbatim>\<open>Math.random()\<close> whose texts in base 36 agree in the seven characters
  that \<^verbatim>\<open>substring(2, 9)\<close> keeps; and the state with no item stored.
\<close>

definition env_fallback_a :: env where
  "env_fallback_a =
     \<lparr>now_getFullYear = 2024, now_getMonth = 0, now_getDate = 5,
      crypto_randomUUID = None,
      Date_now_id = 1704412800000, Math_random_id = ''0.4fzyo82mvyr'',
      Math_random_msg = ''0.8k2jx1q9wd'', Date_now_timestamp = 1704412800000,
      Date_now_createdAt = 1704412800000\<rparr>"

definition env_fallback_b :: env where
  "env_fallback_b =
     \<lparr>now_getFullYear = 2024, now_getMonth = 0, now_getDate = 5,
      crypto_randomUUID = None,
      Date_now_id = 1704412800000, Math_random_id = ''0.4fzyo82k1c7'',
      Math_random_msg = ''0.1tq0b6zn3e'', Date_now_timestamp = 1704412800000,
      Date_now_createdAt = 1704412800000\<rparr>"

definition world_empty :: "ChatRoom world" where
  "world_empty = \<lparr>localStorage = None, events = []\<rparr>"

text \<open>
  For \<^const>\<open>setTypingStatus\<close>: a sample test of unsafe characters, and a room in which
  Bo is typing.
\<close>

definition sample_unsafe :: "char \<Rightarrow> bool" where
  "sample_unsafe c = (c \<in> set ''.#$[]/'')"

definition room_typing :: TypingRoom where
  "room_typing =
     \<lparr>room_id = ''r1'', title = ''Standup'', password = None, messages = [], memos = [],
      createdAt = 1704412800001, createdBy = ''AI Bot'', typing = [(''Bo'', True)]\<rparr>"

definition world_typing :: "TypingRoom world" where
  "world_typing = \<lparr>localStorage = Some (Serialized [room_typing]), events = []\<rparr>"

section \<open>The store fails soft\<close>

lemma getRooms_total: "\<exists>rooms. getRooms w = Inr rooms"
  by (simp add: getRooms_def split: sum.splits)

lemma getRooms_Serialized:
  "localStorage w = Some (Serialized rooms) \<Longrightarrow> getRooms w = Inr rooms"
  by (simp add: getRooms_def getRooms_try_def getItem_def truthy_def JSON_parse_def)

lemma getRooms_Malformed:
  "localStorage w = Some (Malformed s) \<Longrightarrow> getRooms w = Inr []"
  by (simp add: getRooms_def getRooms_try_def getItem_def truthy_def JSON_parse_def)

lemma getRooms_absent: "localStorage w = None \<Longrightarrow> getRooms w = Inr []"
  by (simp add: getRooms_def getRooms_try_def getItem_def)

section \<open>What saveRoom writes\<close>

lemma findIndex_from_range:
  "0 \<le> i \<Longrightarrow> findIndex_from P i xs = -1 \<or> i \<le> findIndex_from P i xs"
proof (induction xs arbitrary: i)
  case Nil
  then show ?case by simp
next
  case (Cons x xs)
  have "0 \<le> i + 1" using Cons.prems by simp
  from Cons.IH [OF this] show ?case by auto
qed

lemma findIndex_from_put:
  "0 \<le> i \<Longrightarrow>
   (if findIndex_from (\<lambda>r. room_id r = room_id room) i rooms \<ge> 0
    then rooms[nat (findIndex_from (\<lambda>r. room_id r = room_id room) i rooms - i) := room]
    else rooms @ [room]) = put_room room rooms"
proof (induction rooms arbitrary: i)
  case Nil
  then show ?case by simp
next
  case (Cons r rs)
  show ?case
  proof (cases "room_id r = room_id room")
    case True
    with Cons.prems show ?thesis by simp
  next
    case False
    let ?k = "findIndex_from (\<lambda>r. room_id r = room_id room) (i + 1) rs"
    have i1: "0 \<le> i + 1" using Cons.prems by simp
    from findIndex_from_range [OF i1, of "\<lambda>r. room_id r = room_id room" rs]
    have rng: "?k = -1 \<or> i + 1 \<le> ?k" .
    have ih: "(if ?k \<ge> 0 then rs[nat (?k - (i + 1)) := room] else rs @ [room]) = put_room room rs"
      using Cons.IH [OF i1] .
    show ?thesis
    proof (cases "?k \<ge> 0")
      case True
      with rng have ge: "i + 1 \<le> ?k" by simp
      then have "nat (?k - i) = Suc (nat (?k - (i + 1)))" by simp
      with True False ih show ?thesis by simp
    next
      case False': False
      with False ih show ?thesis by simp
    qed
  qed
qed

lemma findIndex_put:
  "(if findIndex (\<lambda>r. room_id r = room_id room) rooms \<ge> 0
    then rooms[nat (findIndex (\<lambda>r. room_id r = room_id room) rooms) := room]
    else rooms @ [room]) = put_room room rooms"
  using findIndex_from_put [of 0 room rooms] by (simp add: findIndex_def split: if_splits)

lemma getRooms_written: "getRooms (notifyChanges (setItem (JSON_stringify rooms) w)) = Inr rooms"
  by (simp add: getRooms_Serialized notifyChanges_def setItem_def JSON_stringify_def)

lemma saveRoom_result:
  "getRooms w = Inr rooms \<Longrightarrow>
   saveRoom room w = Inr (notifyChanges (setItem (JSON_stringify (put_room room rooms)) w))"
  using findIndex_put [of room rooms] by (simp add: saveRoom_def Let_def)

lemma put_room_ids:
  "map room_id (put_room room rooms) =
     (if room_id room \<in> set (map room_id rooms) then map room_id rooms
      else map room_id rooms @ [room_id room])"
  by (induction rooms) auto

lemma put_room_distinct:
  "distinct (map room_id rooms) \<Longrightarrow> distinct (map room_id (put_room room rooms))"
  by (simp add: put_room_ids)

lemma put_room_filter:
  "r = room_id room \<Longrightarrow> filter (\<lambda>x. room_id x \<noteq> r) (put_room room rooms) = filter (\<lambda>x. room_id x \<noteq> r) rooms"
  by (induction rooms) auto

lemma put_room_find:
  "find (\<lambda>x. room_id x = room_id room) (put_room room rooms) = Some room"
  by (induction rooms) auto

lemma put_room_member: "room \<in> set (put_room room rooms)"
  by (induction rooms) auto

lemma put_room_idem: "put_room room (put_room room rooms) = put_room room rooms"
  by (induction rooms) auto

lemma find_room_id: "find (\<lambda>x. room_id x = r) rooms = Some room \<Longrightarrow> room_id room = r"
  by (induction rooms) (auto split: if_splits)

lemma deleteRoom_strict_eq: "deleteRoom_strict r w = deleteRoom r w"
  by (simp add: deleteRoom_strict_def deleteRoom_def String_js_def Let_def split: sum.splits)

lemma room_standup_id: "room_id room_standup = ''3b241101-e2bb-4255-8caf-4136c566a962''"
  by (simp add: room_standup_def newRoom_def uniqueId_def env_standup_def)

lemma getRooms_world_standup: "getRooms world_standup = Inr [room_standup]"
  by (simp add: world_standup_def getRooms_Serialized)

section \<open>What each operation writes\<close>

lemma createRoom_result:
  "getRooms w = Inr rooms \<Longrightarrow>
   createRoom e t p w =
     Inr (newRoom e t p, notifyChanges (setItem (JSON_stringify (put_room (newRoom e t p) rooms)) w))"
  by (simp add: createRoom_def saveRoom_result)

lemma deleteRoom_result:
  "getRooms w = Inr rooms \<Longrightarrow>
   deleteRoom r w =
     Inr (notifyChanges (setItem (JSON_stringify (filter (\<lambda>x. room_id x \<noteq> r) rooms)) w))"
  by (simp add: deleteRoom_def String_js_def)

lemma addMessage_result:
  "getRooms w = Inr rooms \<Longrightarrow>
   addMessage r m w =
     (case find (\<lambda>x. room_id x = r) rooms of
        Some room \<Rightarrow> Inr (notifyChanges (setItem (JSON_stringify
                        (put_room (room\<lparr>messages := messages room @ [m]\<rparr>) rooms)) w))
      | None \<Rightarrow> Inr w)"
  by (simp add: addMessage_def saveRoom_result split: option.splits)

lemma addMemo_result:
  "getRooms w = Inr rooms \<Longrightarrow>
   addMemo r memo w =
     (case find (\<lambda>x. room_id x = r) rooms of
        Some room \<Rightarrow> Inr (notifyChanges (setItem (JSON_stringify
                        (put_room (room\<lparr>memos := memos room @ [memo]\<rparr>) rooms)) w))
      | None \<Rightarrow> Inr w)"
  by (simp add: addMemo_def saveRoom_result split: option.splits)

lemma deleteMemo_result:
  "getRooms w = Inr rooms \<Longrightarrow>
   deleteMemo r memoId w =
     (case find (\<lambda>x. room_id x = r) rooms of
        Some room \<Rightarrow> Inr (notifyChanges (setItem (JSON_stringify
                        (put_room (room\<lparr>memos := filter (\<lambda>m. memo_id m \<noteq> memoId) (memos room)\<rparr>) rooms)) w))
      | None \<Rightarrow> Inr w)"
  by (simp add: deleteMemo_def saveRoom_result split: option.splits)

lemma unique_ids_written: "unique_ids (notifyChanges (setItem (JSON_stringify rooms) w)) = distinct (map room_id rooms)"
  by (simp add: unique_ids_def getRooms_written)

lemma unique_ids_load: "getRooms w = Inr rooms \<Longrightarrow> unique_ids w = distinct (map room_id rooms)"
  by (simp add: unique_ids_def)

lemma dateText_standup:
  "dateText env_standup = ''2024'' @ nyeon @ '' 1'' @ wol @ '' 5'' @ il"
  by (simp add: dateText_def env_standup_def decimal.simps)

lemma createRoom_total:
  "\<exists>w'. createRoom e t p w = Inr (newRoom e t p, w')"
proof -
  obtain rooms where "getRooms w = Inr rooms"
    using getRooms_total by blast
  then show ?thesis
    by (simp add: createRoom_result)
qed

lemma createRooms_total:
  "\<exists>w'. createRooms calls w = Inr (map (\<lambda>c. newRoom (fst c) (fst (snd c)) (snd (snd c))) calls, w')"
proof (induction calls arbitrary: w)
  case Nil
  show ?case by simp
next
  case (Cons c calls)
  obtain e t p where c: "c = (e, t, p)"
    by (cases c) auto
  obtain w1 where one: "createRoom e t p w = Inr (newRoom e t p, w1)"
    using createRoom_total by blast
  obtain w2 where rest:
    "createRooms calls w1 = Inr (map (\<lambda>c. newRoom (fst c) (fst (snd c)) (snd (snd c))) calls, w2)"
    using Cons.IH by blast
  show ?case
    by (simp add: c one rest)
qed

lemma newRoom_id: "room_id (newRoom e t p) = uniqueId e"
  by (simp add: newRoom_def)

lemma uniqueId_fallback_a: "uniqueId env_fallback_a = ''room_1704412800000_4fzyo82''"
  by (simp add: uniqueId_def env_fallback_a_def substring_def decimal.simps)

lemma uniqueId_fallback_b: "uniqueId env_fallback_b = ''room_1704412800000_4fzyo82''"
  by (simp add: uniqueId_def env_fallback_b_def substring_def decimal.simps)

lemma createRoom_collision_overwrites:
  "\<exists>rooms w'.
     createRooms [(env_fallback_a, ''Standup'', None), (env_fallback_b, ''Retro'', None)] world_empty
       = Inr (rooms, w') \<and>
     getRooms w' = Inr [newRoom env_fallback_b ''Retro'' None]"
proof -
  let ?a = "newRoom env_fallback_a ''Standup'' None"
  let ?b = "newRoom env_fallback_b ''Retro'' None"
  let ?w1 = "notifyChanges (setItem (JSON_stringify [?a]) world_empty)"
  let ?w2 = "notifyChanges (setItem (JSON_stringify [?b]) ?w1)"
  have l0: "getRooms world_empty = Inr []"
    by (simp add: world_empty_def getRooms_absent)
  have c1: "createRoom env_fallback_a ''Standup'' None world_empty = Inr (?a, ?w1)"
    using createRoom_result [OF l0, of env_fallback_a "''Standup''" None] by simp
  have l1: "getRooms ?w1 = Inr [?a]"
    by (simp add: getRooms_written)
  have same: "room_id ?a = room_id ?b"
    by (simp add: newRoom_id uniqueId_fallback_a uniqueId_fallback_b)
  have c2: "createRoom env_fallback_b ''Retro'' None ?w1 = Inr (?b, ?w2)"
    using createRoom_result [OF l1, of env_fallback_b "''Retro''" None] same by simp
  have l2: "getRooms ?w2 = Inr [?b]"
    by (rule getRooms_written)
  have run: "createRooms [(env_fallback_a, ''Standup'', None), (env_fallback_b, ''Retro'', None)]
               world_empty = Inr ([?a, ?b], ?w2)"
    by (simp add: c1 c2)
  show ?thesis
    by (intro exI [of _ "[?a, ?b]"] exI [of _ ?w2] conjI) (rule run l2)+
qed

lemma setTypingStatus_result:
  "getRooms w = Inr rooms \<Longrightarrow>
   setTypingStatus unsafe r username isTyping w =
     (case find (\<lambda>x. room_id x = r) rooms of
        Some room \<Rightarrow> Inr (notifyChanges (setItem (JSON_stringify
          (put_room (room\<lparr>typing := AList.update (sanitize unsafe username) isTyping (typing room)\<rparr>)
             rooms)) w))
      | None \<Rightarrow> Inr w)"
  by (simp add: setTypingStatus_def saveRoom_result split: option.splits)

lemma getRooms_world_typing: "getRooms world_typing = Inr [room_typing]"
  by (simp add: world_typing_def getRooms_Serialized)

lemma sanitize_example: "sanitize sample_unsafe ''A.na#1'' = ''Ana1''"
  by (simp add: sanitize_def sample_unsafe_def)

section \<open>The claims\<close>

text \<open>
  C2. Whatever the item is, \<^verbatim>\<open>getRooms\<close> returns an array and raises nothing; it returns
  the empty array when the key is absent, when the item is the empty text and when
  \<^verbatim>\<open>JSON.parse\<close> rejects the item.
\<close>

theorem getRooms_never_raises:
  "(\<exists>rooms. getRooms w = Inr rooms) \<and>
   (getItem w = None \<longrightarrow> getRooms w = Inr []) \<and>
   (getItem w = Some (Malformed []) \<longrightarrow> getRooms w = Inr []) \<and>
   ((\<exists>stored e. getItem w = Some stored \<and> JSON_parse stored = Inl e) \<longrightarrow> getRooms w = Inr [])"
proof (intro conjI impI)
  show "\<exists>rooms. getRooms w = Inr rooms"
    by (rule getRooms_total)
next
  assume "getItem w = None"
  then show "getRooms w = Inr []"
    by (simp add: getRooms_absent getItem_def)
next
  assume "getItem w = Some (Malformed [])"
  then show "getRooms w = Inr []"
    by (simp add: getRooms_Malformed getItem_def)
next
  assume "\<exists>stored e. getItem w = Some stored \<and> JSON_parse stored = Inl e"
  then obtain stored e where s: "getItem w = Some stored" and p: "JSON_parse stored = Inl e"
    by blast
  show "getRooms w = Inr []"
    using s p by (simp add: getRooms_def getRooms_try_def)
qed

theorem getRooms_never_raises_witness:
  "getRooms \<lparr>localStorage = None :: ChatRoom blob option, events = []\<rparr> = Inr [] \<and>
   getRooms \<lparr>localStorage = Some (Malformed [] :: ChatRoom blob), events = []\<rparr> = Inr [] \<and>
   getRooms \<lparr>localStorage = Some (Malformed ''{oops'' :: ChatRoom blob), events = []\<rparr> = Inr []"
proof (intro conjI)
  let ?w0 = "\<lparr>localStorage = None :: ChatRoom blob option, events = []\<rparr>"
  let ?w1 = "\<lparr>localStorage = Some (Malformed [] :: ChatRoom blob), events = []\<rparr>"
  let ?w2 = "\<lparr>localStorage = Some (Malformed ''{oops'' :: ChatRoom blob), events = []\<rparr>"
  show "getRooms ?w0 = Inr []"
    using getRooms_never_raises [of ?w0] by (simp add: getItem_def)
  show "getRooms ?w1 = Inr []"
    using getRooms_never_raises [of ?w1] by (simp add: getItem_def)
  have "\<exists>stored e. getItem ?w2 = Some stored \<and> JSON_parse stored = Inl e"
    by (simp add: getItem_def JSON_parse_def)
  then show "getRooms ?w2 = Inr []"
    using getRooms_never_raises [of ?w2] by blast
qed

text \<open>
  C1. When the collection holds a room with id \<open>r\<close>, of which \<open>room\<close> is the first,
  \<^verbatim>\<open>addMessage(r, m)\<close> returns and the collection read afterwards holds, first among
  the rooms with id \<open>r\<close>, \<open>room\<close> with \<open>m\<close> appended to its messages: the last message
  is \<open>m\<close> and the messages before it are the old ones in their order.
\<close>

theorem addMessage_appends:
  assumes "getRooms w = Inr rooms"
    and "find (\<lambda>x. room_id x = r) rooms = Some room"
  shows "\<exists>w' rooms' room'.
           addMessage r m w = Inr w' \<and> getRooms w' = Inr rooms' \<and>
           find (\<lambda>x. room_id x = r) rooms' = Some room' \<and>
           room' = room\<lparr>messages := messages room @ [m]\<rparr> \<and>
           room_id room' = r \<and>
           messages room' = messages room @ [m] \<and>
           last (messages room') = m \<and> butlast (messages room') = messages room"
proof -
  let ?room' = "room\<lparr>messages := messages room @ [m]\<rparr>"
  let ?rooms' = "put_room ?room' rooms"
  let ?w' = "notifyChanges (setItem (JSON_stringify ?rooms') w)"
  have rid: "room_id room = r"
    using assms(2) by (rule find_room_id)
  have call: "addMessage r m w = Inr ?w'"
    using assms by (simp add: addMessage_def saveRoom_result)
  have load: "getRooms ?w' = Inr ?rooms'"
    by (rule getRooms_written)
  have found: "find (\<lambda>x. room_id x = r) ?rooms' = Some ?room'"
    using put_room_find [of ?room' rooms] rid by simp
  show ?thesis
    using call load found rid by simp
qed

theorem addMessage_appends_witness:
  "\<exists>w' rooms' room'.
     addMessage ''3b241101-e2bb-4255-8caf-4136c566a962'' msg_hi world_standup = Inr w' \<and>
     getRooms w' = Inr rooms' \<and>
     find (\<lambda>x. room_id x = ''3b241101-e2bb-4255-8caf-4136c566a962'') rooms' = Some room' \<and>
     messages room' = messages room_standup @ [msg_hi]"
proof -
  have found: "find (\<lambda>x. room_id x = ''3b241101-e2bb-4255-8caf-4136c566a962'') [room_standup]
                 = Some room_standup"
    by (simp add: room_standup_id)
  from addMessage_appends [OF getRooms_world_standup found, of msg_hi]
  show ?thesis by blast
qed

text \<open>
  C3. When no room of the collection has the id, \<^verbatim>\<open>addMessage\<close>, \<^verbatim>\<open>addMemo\<close> and
  \<^verbatim>\<open>deleteMemo\<close> return without an error and leave the state as it was: the item is
  not written and no event is dispatched.
\<close>

theorem missing_room_noop:
  assumes "getRooms w = Inr rooms"
    and "find (\<lambda>x. room_id x = r) rooms = None"
  shows "addMessage r m w = Inr w \<and> addMemo r memo w = Inr w \<and> deleteMemo r memoId w = Inr w"
  using assms by (simp add: addMessage_def addMemo_def deleteMemo_def)

theorem missing_room_noop_witness:
  "addMessage ''gone'' msg_hi world_standup = Inr world_standup \<and>
   addMemo ''gone'' memo_plan world_standup = Inr world_standup \<and>
   deleteMemo ''gone'' ''p7d2m4q8z'' world_standup = Inr world_standup"
proof -
  have absent: "find (\<lambda>x. room_id x = ''gone'') [room_standup] = None"
    by (simp add: room_standup_id)
  from missing_room_noop [OF getRooms_world_standup absent]
  show ?thesis .
qed

text \<open>
  C6. Whatever the item is, \<^verbatim>\<open>deleteRoom(r)\<close> returns, and the collection read afterwards
  is the old one without the rooms whose id, as \<^verbatim>\<open>String\<close> gives it, is that of \<open>r\<close>: no
  room of it has the id \<open>r\<close>, whether one had it before or not.
\<close>

theorem deleteRoom_removes:
  "\<exists>rooms w' rooms'.
     getRooms w = Inr rooms \<and> deleteRoom r w = Inr w' \<and> getRooms w' = Inr rooms' \<and>
     rooms' = filter (\<lambda>x. String_js (room_id x) \<noteq> String_js r) rooms \<and>
     (\<forall>x \<in> set rooms'. room_id x \<noteq> r)"
proof -
  obtain rooms where load: "getRooms w = Inr rooms"
    using getRooms_total by blast
  let ?rooms' = "filter (\<lambda>x. String_js (room_id x) \<noteq> String_js r) rooms"
  let ?w' = "notifyChanges (setItem (JSON_stringify ?rooms') w)"
  have call: "deleteRoom r w = Inr ?w'"
    using load by (simp add: deleteRoom_def)
  have after: "getRooms ?w' = Inr ?rooms'"
    by (rule getRooms_written)
  have gone: "\<forall>x \<in> set ?rooms'. room_id x \<noteq> r"
    by (simp add: String_js_def)
  show ?thesis
    using load call after gone by blast
qed

theorem deleteRoom_removes_witness:
  "\<exists>w'. deleteRoom ''3b241101-e2bb-4255-8caf-4136c566a962'' world_standup = Inr w' \<and>
         getRooms w' = Inr []"
proof -
  from deleteRoom_removes [of world_standup "''3b241101-e2bb-4255-8caf-4136c566a962''"]
  obtain rooms w' rooms' where
    "getRooms world_standup = Inr rooms"
    "deleteRoom ''3b241101-e2bb-4255-8caf-4136c566a962'' world_standup = Inr w'"
    "getRooms w' = Inr rooms'"
    "rooms' = filter (\<lambda>x. String_js (room_id x) \<noteq> String_js ''3b241101-e2bb-4255-8caf-4136c566a962'') rooms"
    by blast
  then show ?thesis
    by (auto simp: getRooms_world_standup room_standup_id String_js_def)
qed

text \<open>
  C7. When no two rooms of the collection have the same id, each of \<^verbatim>\<open>createRoom\<close>,
  \<^verbatim>\<open>saveRoom\<close>, \<^verbatim>\<open>deleteRoom\<close>, \<^verbatim>\<open>addMessage\<close>, \<^verbatim>\<open>addMemo\<close> and
  \<^verbatim>\<open>deleteMemo\<close> returns and leaves a collection of which the same holds:
  \<^verbatim>\<open>saveRoom\<close> replaces the room that has the id and appends only when none has it.
\<close>

theorem distinct_ids_invariant:
  assumes "unique_ids w"
  shows "(\<exists>room w'. createRoom e t p w = Inr (room, w') \<and> unique_ids w') \<and>
         (\<exists>w'. saveRoom room w = Inr w' \<and> unique_ids w') \<and>
         (\<exists>w'. deleteRoom r w = Inr w' \<and> unique_ids w') \<and>
         (\<exists>w'. addMessage r m w = Inr w' \<and> unique_ids w') \<and>
         (\<exists>w'. addMemo r memo w = Inr w' \<and> unique_ids w') \<and>
         (\<exists>w'. deleteMemo r memoId w = Inr w' \<and> unique_ids w')"
proof -
  obtain rooms where load: "getRooms w = Inr rooms"
    using getRooms_total by blast
  with assms have d: "distinct (map room_id rooms)"
    by (simp add: unique_ids_load)
  have put: "\<And>x. unique_ids (notifyChanges (setItem (JSON_stringify (put_room x rooms)) w))"
    using d by (simp add: unique_ids_written put_room_distinct)
  have c1: "\<exists>room w'. createRoom e t p w = Inr (room, w') \<and> unique_ids w'"
    using put by (simp add: createRoom_result [OF load])
  have c2: "\<exists>w'. saveRoom room w = Inr w' \<and> unique_ids w'"
    using put by (simp add: saveRoom_result [OF load])
  have c3: "\<exists>w'. deleteRoom r w = Inr w' \<and> unique_ids w'"
    using d by (simp add: deleteRoom_result [OF load] unique_ids_written distinct_map_filter)
  have c4: "\<exists>w'. addMessage r m w = Inr w' \<and> unique_ids w'"
    using put assms by (simp add: addMessage_result [OF load] split: option.splits)
  have c5: "\<exists>w'. addMemo r memo w = Inr w' \<and> unique_ids w'"
    using put assms by (simp add: addMemo_result [OF load] split: option.splits)
  have c6: "\<exists>w'. deleteMemo r memoId w = Inr w' \<and> unique_ids w'"
    using put assms by (simp add: deleteMemo_result [OF load] split: option.splits)
  from c1 c2 c3 c4 c5 c6 show ?thesis by blast
qed

theorem distinct_ids_invariant_witness:
  "unique_ids world_standup \<and>
   (\<exists>w'. addMessage ''3b241101-e2bb-4255-8caf-4136c566a962'' msg_hi world_standup = Inr w' \<and>
          unique_ids w') \<and>
   (\<exists>room w'. createRoom env_standup ''Standup'' None world_standup = Inr (room, w') \<and>
          unique_ids w')"
proof -
  have u: "unique_ids world_standup"
    by (simp add: unique_ids_def getRooms_world_standup)
  from distinct_ids_invariant [OF u] u show ?thesis
    by blast
qed

text \<open>
  C8. For every title and optional password \<^verbatim>\<open>createRoom\<close> returns a room with that
  title and password whose messages are one message of type \<^verbatim>\<open>system\<close>, sent by
  \<^verbatim>\<open>System\<close>, with the date banner as its text, whose memos are empty and whose
  \<^verbatim>\<open>createdBy\<close> is \<^verbatim>\<open>AI Bot\<close>; the collection read afterwards holds the room, and
  finds it under its id. The banner is the year in decimal digits, the syllable for year,
  a space, the month counted from 1, the syllable for month, a space, the day of the month
  and the syllable for day.
\<close>

theorem createRoom_seeds:
  "\<exists>room w' rooms' banner.
     createRoom e t p w = Inr (room, w') \<and>
     title room = t \<and> password room = p \<and>
     messages room = [banner] \<and> msg_type banner = SYSTEM \<and> msg_text banner = dateText e \<and>
     msg_text banner =
       decimal (now_getFullYear e) @ [CHR 0xEB, CHR 0x85, CHR 0x84] @ '' '' @
       decimal (now_getMonth e + 1) @ [CHR 0xEC, CHR 0x9B, CHR 0x94] @ '' '' @
       decimal (now_getDate e) @ [CHR 0xEC, CHR 0x9D, CHR 0xBC] \<and>
     senderName banner = ''System'' \<and>
     memos room = [] \<and> createdBy room = ''AI Bot'' \<and>
     getRooms w' = Inr rooms' \<and> room \<in> set rooms' \<and>
     find (\<lambda>x. room_id x = room_id room) rooms' = Some room"
proof -
  obtain rooms where load: "getRooms w = Inr rooms"
    using getRooms_total by blast
  let ?room = "newRoom e t p"
  let ?w' = "notifyChanges (setItem (JSON_stringify (put_room ?room rooms)) w)"
  have call: "createRoom e t p w = Inr (?room, ?w')"
    using load by (rule createRoom_result)
  have after: "getRooms ?w' = Inr (put_room ?room rooms)"
    by (rule getRooms_written)
  have shape: "title ?room = t \<and> password ?room = p \<and>
               messages ?room = [hd (messages ?room)] \<and> msg_type (hd (messages ?room)) = SYSTEM \<and>
               msg_text (hd (messages ?room)) = dateText e \<and>
               msg_text (hd (messages ?room)) =
                 decimal (now_getFullYear e) @ [CHR 0xEB, CHR 0x85, CHR 0x84] @ '' '' @
                 decimal (now_getMonth e + 1) @ [CHR 0xEC, CHR 0x9B, CHR 0x94] @ '' '' @
                 decimal (now_getDate e) @ [CHR 0xEC, CHR 0x9D, CHR 0xBC] \<and>
               senderName (hd (messages ?room)) = ''System'' \<and>
               memos ?room = [] \<and> createdBy ?room = ''AI Bot''"
    by (simp add: newRoom_def dateText_def nyeon_def wol_def il_def)
  show ?thesis
    using call after shape put_room_member [of ?room rooms] put_room_find [of ?room rooms]
    by blast
qed

theorem createRoom_seeds_witness:
  "\<exists>room w' banner.
     createRoom env_standup ''Standup'' None world_empty = Inr (room, w') \<and>
     title room = ''Standup'' \<and> password room = None \<and>
     messages room = [banner] \<and> msg_type banner = SYSTEM \<and>
     msg_text banner =
       [CHR ''2'', CHR ''0'', CHR ''2'', CHR ''4'', CHR 0xEB, CHR 0x85, CHR 0x84, CHR '' '',
        CHR ''1'', CHR 0xEC, CHR 0x9B, CHR 0x94, CHR '' '',
        CHR ''5'', CHR 0xEC, CHR 0x9D, CHR 0xBC] \<and>
     memos room = [] \<and> createdBy room = ''AI Bot'' \<and>
     getRooms w' = Inr [room]"
proof -
  from createRoom_seeds [of env_standup "''Standup''" None world_empty]
  obtain room w' rooms' banner where
    call: "createRoom env_standup ''Standup'' None world_empty = Inr (room, w')"
    and shape: "title room = ''Standup''" "password room = None" "messages room = [banner]"
      "msg_type banner = SYSTEM" "memos room = []" "createdBy room = ''AI Bot''"
    and banner: "msg_text banner =
       decimal (now_getFullYear env_standup) @ [CHR 0xEB, CHR 0x85, CHR 0x84] @ '' '' @
       decimal (now_getMonth env_standup + 1) @ [CHR 0xEC, CHR 0x9B, CHR 0x94] @ '' '' @
       decimal (now_getDate env_standup) @ [CHR 0xEC, CHR 0x9D, CHR 0xBC]"
    by blast
  have lit: "msg_text banner =
       [CHR ''2'', CHR ''0'', CHR ''2'', CHR ''4'', CHR 0xEB, CHR 0x85, CHR 0x84, CHR '' '',
        CHR ''1'', CHR 0xEC, CHR 0x9B, CHR 0x94, CHR '' '',
        CHR ''5'', CHR 0xEC, CHR 0x9D, CHR 0xBC]"
    using banner by (simp add: env_standup_def decimal.simps)
  have empty: "getRooms world_empty = Inr []"
    by (simp add: world_empty_def getRooms_absent)
  have "createRoom env_standup ''Standup'' None world_empty =
          Inr (newRoom env_standup ''Standup'' None,
               notifyChanges (setItem (JSON_stringify [newRoom env_standup ''Standup'' None])
                 world_empty))"
    using createRoom_result [OF empty, of env_standup "''Standup''" None] by simp
  with call have "getRooms w' = Inr [room]"
    by (auto simp: getRooms_written)
  with call shape lit show ?thesis
    by blast
qed

text \<open>
  C9. \<^verbatim>\<open>deleteMemo(r, id)\<close> twice leaves the item, and so the collection read from it
  and the memos of every room, as \<^verbatim>\<open>deleteMemo(r, id)\<close> once leaves them.
\<close>

theorem deleteMemo_idempotent:
  "\<exists>w1 w2. deleteMemo r memoId w = Inr w1 \<and> deleteMemo r memoId w1 = Inr w2 \<and>
            getRooms w2 = getRooms w1 \<and> localStorage w2 = localStorage w1"
proof -
  obtain rooms where load: "getRooms w = Inr rooms"
    using getRooms_total by blast
  show ?thesis
  proof (cases "find (\<lambda>x. room_id x = r) rooms")
    case None
    then have "deleteMemo r memoId w = Inr w"
      by (simp add: deleteMemo_result [OF load])
    then show ?thesis by simp
  next
    case (Some room)
    let ?room' = "room\<lparr>memos := filter (\<lambda>m. memo_id m \<noteq> memoId) (memos room)\<rparr>"
    let ?w1 = "notifyChanges (setItem (JSON_stringify (put_room ?room' rooms)) w)"
    let ?w2 = "notifyChanges (setItem (JSON_stringify (put_room ?room' rooms)) ?w1)"
    have rid: "room_id ?room' = r"
      using find_room_id [OF Some] by simp
    have first: "deleteMemo r memoId w = Inr ?w1"
      using Some by (simp add: deleteMemo_result [OF load])
    have load1: "getRooms ?w1 = Inr (put_room ?room' rooms)"
      by (rule getRooms_written)
    have found1: "find (\<lambda>x. room_id x = r) (put_room ?room' rooms) = Some ?room'"
      using put_room_find [of ?room' rooms] rid by simp
    have again: "?room'\<lparr>memos := filter (\<lambda>m. memo_id m \<noteq> memoId) (memos ?room')\<rparr> = ?room'"
      by simp
    have second: "deleteMemo r memoId ?w1 = Inr ?w2"
      using found1 again by (simp add: deleteMemo_result [OF load1] put_room_idem)
    have same1: "getRooms ?w2 = getRooms ?w1"
      by (simp only: getRooms_written)
    have same2: "localStorage ?w2 = localStorage ?w1"
      by (simp add: notifyChanges_def setItem_def)
    show ?thesis
      by (intro exI [of _ ?w1] exI [of _ ?w2] conjI) (rule first second same1 same2)+
  qed
qed

text \<open>
  C10. \<^verbatim>\<open>saveRoom\<close> of a room with id \<open>r\<close>, \<^verbatim>\<open>addMessage\<close>, \<^verbatim>\<open>addMemo\<close> and
  \<^verbatim>\<open>deleteMemo\<close> on \<open>r\<close> return, and the rooms with another id are afterwards the
  rooms that were there, unchanged and in their order.
\<close>

theorem other_rooms_unchanged:
  "\<exists>rooms.
     getRooms w = Inr rooms \<and>
     (\<exists>w' rooms'. saveRoom room w = Inr w' \<and> getRooms w' = Inr rooms' \<and>
        filter (\<lambda>x. room_id x \<noteq> room_id room) rooms' = filter (\<lambda>x. room_id x \<noteq> room_id room) rooms) \<and>
     (\<exists>w' rooms'. addMessage r m w = Inr w' \<and> getRooms w' = Inr rooms' \<and>
        filter (\<lambda>x. room_id x \<noteq> r) rooms' = filter (\<lambda>x. room_id x \<noteq> r) rooms) \<and>
     (\<exists>w' rooms'. addMemo r memo w = Inr w' \<and> getRooms w' = Inr rooms' \<and>
        filter (\<lambda>x. room_id x \<noteq> r) rooms' = filter (\<lambda>x. room_id x \<noteq> r) rooms) \<and>
     (\<exists>w' rooms'. deleteMemo r memoId w = Inr w' \<and> getRooms w' = Inr rooms' \<and>
        filter (\<lambda>x. room_id x \<noteq> r) rooms' = filter (\<lambda>x. room_id x \<noteq> r) rooms)"
proof -
  obtain rooms where load: "getRooms w = Inr rooms"
    using getRooms_total by blast
  have put: "\<And>x q. room_id x = q \<Longrightarrow>
      getRooms (notifyChanges (setItem (JSON_stringify (put_room x rooms)) w)) = Inr (put_room x rooms) \<and>
      filter (\<lambda>y. room_id y \<noteq> q) (put_room x rooms) = filter (\<lambda>y. room_id y \<noteq> q) rooms"
    by (simp add: getRooms_written put_room_filter)
  have c1: "\<exists>w' rooms'. saveRoom room w = Inr w' \<and> getRooms w' = Inr rooms' \<and>
        filter (\<lambda>x. room_id x \<noteq> room_id room) rooms' = filter (\<lambda>x. room_id x \<noteq> room_id room) rooms"
    using put [of room "room_id room"] by (simp add: saveRoom_result [OF load])
  have c2: "\<exists>w' rooms'. addMessage r m w = Inr w' \<and> getRooms w' = Inr rooms' \<and>
        filter (\<lambda>x. room_id x \<noteq> r) rooms' = filter (\<lambda>x. room_id x \<noteq> r) rooms"
  proof (cases "find (\<lambda>x. room_id x = r) rooms")
    case None
    then show ?thesis by (simp add: addMessage_result [OF load] load)
  next
    case (Some x)
    from find_room_id [OF this] have "room_id (x\<lparr>messages := messages x @ [m]\<rparr>) = r"
      by simp
    from put [OF this] Some show ?thesis
      by (simp add: addMessage_result [OF load])
  qed
  have c3: "\<exists>w' rooms'. addMemo r memo w = Inr w' \<and> getRooms w' = Inr rooms' \<and>
        filter (\<lambda>x. room_id x \<noteq> r) rooms' = filter (\<lambda>x. room_id x \<noteq> r) rooms"
  proof (cases "find (\<lambda>x. room_id x = r) rooms")
    case None
    then show ?thesis by (simp add: addMemo_result [OF load] load)
  next
    case (Some x)
    from find_room_id [OF this] have "room_id (x\<lparr>memos := memos x @ [memo]\<rparr>) = r"
      by simp
    from put [OF this] Some show ?thesis
      by (simp add: addMemo_result [OF load])
  qed
  have c4: "\<exists>w' rooms'. deleteMemo r memoId w = Inr w' \<and> getRooms w' = Inr rooms' \<and>
        filter (\<lambda>x. room_id x \<noteq> r) rooms' = filter (\<lambda>x. room_id x \<noteq> r) rooms"
  proof (cases "find (\<lambda>x. room_id x = r) rooms")
    case None
    then show ?thesis by (simp add: deleteMemo_result [OF load] load)
  next
    case (Some x)
    from find_room_id [OF this] have "room_id (x\<lparr>memos := filter (\<lambda>m. memo_id m \<noteq> memoId) (memos x)\<rparr>) = r"
      by simp
    from put [OF this] Some show ?thesis
      by (simp add: deleteMemo_result [OF load])
  qed
  show ?thesis
    by (intro exI [of _ rooms] conjI) (rule load c1 c2 c3 c4)+
qed

text \<open>
  C5, as stated, fails. \<^verbatim>\<open>createRoom\<close> takes the id that the platform hands it and
  compares it with nothing: two calls without \<^verbatim>\<open>crypto.randomUUID\<close>, in one
  millisecond, whose random texts agree in the seven characters kept, return rooms with
  the same id.
\<close>

theorem createRoom_ids_collide:
  "returned_ids [(env_fallback_a, ''Standup'', None), (env_fallback_b, ''Retro'', None)] world_empty
     = [''room_1704412800000_4fzyo82'', ''room_1704412800000_4fzyo82''] \<and>
   \<not> distinct
       (returned_ids [(env_fallback_a, ''Standup'', None), (env_fallback_b, ''Retro'', None)]
          world_empty)"
proof -
  obtain w' where
    "createRooms [(env_fallback_a, ''Standup'', None), (env_fallback_b, ''Retro'', None)] world_empty
       = Inr (map (\<lambda>c. newRoom (fst c) (fst (snd c)) (snd (snd c)))
               [(env_fallback_a, ''Standup'', None), (env_fallback_b, ''Retro'', None)], w')"
    using createRooms_total by blast
  then have "returned_ids [(env_fallback_a, ''Standup'', None), (env_fallback_b, ''Retro'', None)]
        world_empty = [''room_1704412800000_4fzyo82'', ''room_1704412800000_4fzyo82'']"
    by (simp add: returned_ids_def newRoom_id uniqueId_fallback_a uniqueId_fallback_b)
  then show ?thesis by simp
qed

text \<open>
  C5, amended. Every sequence of \<^verbatim>\<open>createRoom\<close> calls returns, and the id of each room
  returned is the id generated for its call: the value of \<^verbatim>\<open>crypto.randomUUID()\<close> where
  that exists, else \<^verbatim>\<open>room_\<close>, the clock reading, \<^verbatim>\<open>_\<close> and the third to ninth
  character of \<^verbatim>\<open>Math.random().toString(36)\<close>. The ids returned are pairwise distinct
  exactly when the ids generated are.
\<close>

theorem createRooms_ids:
  "\<exists>rooms w'.
     createRooms calls w = Inr (rooms, w') \<and>
     map room_id rooms = map (\<lambda>c. uniqueId (fst c)) calls \<and>
     map room_id rooms =
       map (\<lambda>c. case crypto_randomUUID (fst c) of
                  Some uuid \<Rightarrow> uuid
                | None \<Rightarrow> ''room_'' @ decimal (Date_now_id (fst c)) @ ''_'' @
                          substring 2 9 (Math_random_id (fst c))) calls \<and>
     (distinct (map room_id rooms) \<longleftrightarrow> distinct (map (\<lambda>c. uniqueId (fst c)) calls))"
proof -
  let ?rooms = "map (\<lambda>c. newRoom (fst c) (fst (snd c)) (snd (snd c))) calls"
  obtain w' where run: "createRooms calls w = Inr (?rooms, w')"
    using createRooms_total by blast
  have ids: "map room_id ?rooms = map (\<lambda>c. uniqueId (fst c)) calls"
    by (simp add: newRoom_id)
  have gen: "map (\<lambda>c. uniqueId (fst c)) calls =
       map (\<lambda>c. case crypto_randomUUID (fst c) of
                  Some uuid \<Rightarrow> uuid
                | None \<Rightarrow> ''room_'' @ decimal (Date_now_id (fst c)) @ ''_'' @
                          substring 2 9 (Math_random_id (fst c))) calls"
    by (simp add: uniqueId_def)
  show ?thesis
    by (intro exI [of _ ?rooms] exI [of _ w'] conjI) (simp_all only: run ids gen)
qed

theorem createRooms_ids_witness:
  "returned_ids [(env_standup, ''Standup'', None), (env_fallback_a, ''Secret'', Some ''xyz'')] world_empty
     = [''3b241101-e2bb-4255-8caf-4136c566a962'', ''room_1704412800000_4fzyo82'']"
proof -
  from createRooms_ids
    [of "[(env_standup, ''Standup'', None), (env_fallback_a, ''Secret'', Some ''xyz'')]" world_empty]
  obtain rooms w' where
    run: "createRooms [(env_standup, ''Standup'', None), (env_fallback_a, ''Secret'', Some ''xyz'')]
            world_empty = Inr (rooms, w')"
    and ids: "map room_id rooms =
            map (\<lambda>c. uniqueId (fst c))
              [(env_standup, ''Standup'', None), (env_fallback_a, ''Secret'', Some ''xyz'')]"
    by blast
  have "uniqueId env_standup = ''3b241101-e2bb-4255-8caf-4136c566a962''"
    by (simp add: uniqueId_def env_standup_def)
  with run ids show ?thesis
    by (simp add: returned_ids_def uniqueId_fallback_a)
qed

text \<open>
  C4. On the operation as modelled from the spec: when the collection holds a room with id
  \<open>r\<close>, \<^verbatim>\<open>setTypingStatus(r, username, isTyping)\<close> returns and the first such room read
  afterwards is the old one with \<open>isTyping\<close> stored in its typing map under the user name
  without its unsafe characters, every other key keeping its flag; when no room has the
  id, the state is returned as it was.
\<close>

theorem setTypingStatus_upserts:
  assumes load: "getRooms w = Inr rooms"
  shows "(\<forall>room. find (\<lambda>x. room_id x = r) rooms = Some room \<longrightarrow>
            (\<exists>w' rooms' room'.
               setTypingStatus unsafe r username isTyping w = Inr w' \<and>
               getRooms w' = Inr rooms' \<and>
               find (\<lambda>x. room_id x = r) rooms' = Some room' \<and>
               room' = room\<lparr>typing :=
                          AList.update (sanitize unsafe username) isTyping (typing room)\<rparr> \<and>
               map_of (typing room') =
                 (map_of (typing room))(sanitize unsafe username \<mapsto> isTyping))) \<and>
         (find (\<lambda>x. room_id x = r) rooms = None \<longrightarrow>
            setTypingStatus unsafe r username isTyping w = Inr w) \<and>
         sanitize unsafe username = filter (\<lambda>c. \<not> unsafe c) username \<and>
         (\<forall>c \<in> set (sanitize unsafe username). \<not> unsafe c)"
proof (intro conjI allI impI ballI)
  fix room
  assume found: "find (\<lambda>x. room_id x = r) rooms = Some room"
  let ?room' = "room\<lparr>typing := AList.update (sanitize unsafe username) isTyping (typing room)\<rparr>"
  let ?rooms' = "put_room ?room' rooms"
  let ?w' = "notifyChanges (setItem (JSON_stringify ?rooms') w)"
  have rid: "room_id room = r"
    using found by (rule find_room_id)
  have call: "setTypingStatus unsafe r username isTyping w = Inr ?w'"
    using found by (simp add: setTypingStatus_result [OF load])
  have after: "getRooms ?w' = Inr ?rooms'"
    by (rule getRooms_written)
  have again: "find (\<lambda>x. room_id x = r) ?rooms' = Some ?room'"
    using put_room_find [of ?room' rooms] rid by simp
  have upd: "map_of (typing ?room') = (map_of (typing room))(sanitize unsafe username \<mapsto> isTyping)"
    by (simp add: update_conv')
  show "\<exists>w' rooms' room'.
               setTypingStatus unsafe r username isTyping w = Inr w' \<and>
               getRooms w' = Inr rooms' \<and>
               find (\<lambda>x. room_id x = r) rooms' = Some room' \<and>
               room' = room\<lparr>typing :=
                          AList.update (sanitize unsafe username) isTyping (typing room)\<rparr> \<and>
               map_of (typing room') =
                 (map_of (typing room))(sanitize unsafe username \<mapsto> isTyping)"
    by (intro exI [of _ ?w'] exI [of _ ?rooms'] exI [of _ ?room'] conjI)
       (rule call after again refl upd)+
next
  assume "find (\<lambda>x. room_id x = r) rooms = None"
  then show "setTypingStatus unsafe r username isTyping w = Inr w"
    by (simp add: setTypingStatus_result [OF load])
next
  show "sanitize unsafe username = filter (\<lambda>c. \<not> unsafe c) username"
    by (simp add: sanitize_def)
next
  fix c
  assume "c \<in> set (sanitize unsafe username)"
  then show "\<not> unsafe c"
    by (simp add: sanitize_def)
qed

theorem setTypingStatus_upserts_witness:
  "(\<exists>w' rooms' room'.
      setTypingStatus sample_unsafe ''r1'' ''A.na#1'' True world_typing = Inr w' \<and>
      getRooms w' = Inr rooms' \<and>
      find (\<lambda>x. room_id x = ''r1'') rooms' = Some room' \<and>
      typing room' = [(''Bo'', True), (''Ana1'', True)]) \<and>
   setTypingStatus sample_unsafe ''r2'' ''A.na#1'' True world_typing = Inr world_typing"
proof -
  note inst = setTypingStatus_upserts
    [OF getRooms_world_typing, of _ sample_unsafe "''A.na#1''" True]
  have found: "find (\<lambda>x. room_id x = ''r1'') [room_typing] = Some room_typing"
    by (simp add: room_typing_def)
  have absent: "find (\<lambda>x. room_id x = ''r2'') [room_typing] = None"
    by (simp add: room_typing_def)
  from inst [of "''r1''"] found obtain w' rooms' room' where
    "setTypingStatus sample_unsafe ''r1'' ''A.na#1'' True world_typing = Inr w'"
    "getRooms w' = Inr rooms'"
    "find (\<lambda>x. room_id x = ''r1'') rooms' = Some room'"
    "room' = room_typing\<lparr>typing :=
        AList.update (sanitize sample_unsafe ''A.na#1'') True (typing room_typing)\<rparr>"
    by blast
  moreover from this(4) have "typing room' = [(''Bo'', True), (''Ana1'', True)]"
    by (simp add: sanitize_example room_typing_def)
  moreover from inst [of "''r2''"] absent
  have "setTypingStatus sample_unsafe ''r2'' ''A.na#1'' True world_typing = Inr world_typing"
    by blast
  ultimately show ?thesis by blast
qed

end
